theory Spec2Isabelle
  imports Main
begin

section \<open>Values of the document model\<close>

text \<open>
  The model follows the JavaScript sources of the repository. The functions that
  transform a content state are modelled on values; a block offset is a natural number;
  a string is a list of characters. A run-time failure of the JavaScript is the left
  summand of the result: a TypeError (a method call on \<open>undefined\<close>, a call of a
  method that the receiver does not have), a ReferenceError (reading a name that is not
  bound) or a failed \<open>invariant\<close>.
\<close>

datatype js_error = TypeError | ReferenceError | InvariantViolation

subsection \<open>SelectionState\<close>

record SelectionState =
  anchorKey :: string
  anchorOffset :: nat
  focusKey :: string
  focusOffset :: nat
  isBackward :: bool
  hasFocus :: bool

definition isCollapsed :: "SelectionState \<Rightarrow> bool" where
  "isCollapsed s \<longleftrightarrow> anchorKey s = focusKey s \<and> anchorOffset s = focusOffset s"

definition getStartKey :: "SelectionState \<Rightarrow> string" where
  "getStartKey s = (if isBackward s then focusKey s else anchorKey s)"

definition getStartOffset :: "SelectionState \<Rightarrow> nat" where
  "getStartOffset s = (if isBackward s then focusOffset s else anchorOffset s)"

definition getEndKey :: "SelectionState \<Rightarrow> string" where
  "getEndKey s = (if isBackward s then anchorKey s else focusKey s)"

definition getEndOffset :: "SelectionState \<Rightarrow> nat" where
  "getEndOffset s = (if isBackward s then anchorOffset s else focusOffset s)"

definition hasEdgeWithin :: "SelectionState \<Rightarrow> string \<Rightarrow> nat \<Rightarrow> nat \<Rightarrow> bool" where
  "hasEdgeWithin s blockKey start en =
     (if anchorKey s = focusKey s \<and> anchorKey s = blockKey then
        (let selectionStart = getStartOffset s; selectionEnd = getEndOffset s
         in (start \<le> selectionStart \<and> selectionStart \<le> en) \<or>
            (start \<le> selectionEnd \<and> selectionEnd \<le> en))
      else if blockKey \<noteq> anchorKey s \<and> blockKey \<noteq> focusKey s then False
      else (let offsetToCheck =
                  (if blockKey = anchorKey s then anchorOffset s else focusOffset s)
            in start \<le> offsetToCheck \<and> en \<ge> offsetToCheck))"

subsection \<open>CharacterMetadata, ContentBlock, ContentState\<close>

text \<open>
  A style set is a JavaScript \<open>Set\<close> of style names: its elements in insertion order.
  The entity of a character is a key or \<open>null\<close>.
\<close>

record CharacterMetadata =
  style :: "string list"
  entity :: "string option"

record ContentBlock =
  characterList :: "CharacterMetadata list"
  data :: "(string \<times> string) list"
  depth :: nat
  key :: string
  blockText :: string
  type :: string

definition getLength :: "ContentBlock \<Rightarrow> nat" where
  "getLength b = length (blockText b)"

text \<open>
  A block map is a JavaScript \<open>Map\<close> from block keys to blocks: its entries in insertion
  order. \<open>Map_set\<close> is \<open>Map.prototype.set\<close> (the value of a key that is present is
  replaced in place, a new key goes to the end), \<open>Map_of_entries\<close> is the constructor
  \<open>new Map(entries)\<close>.
\<close>

type_synonym BlockMap = "(string \<times> ContentBlock) list"

fun Map_set :: "('k \<times> 'v) list \<Rightarrow> 'k \<Rightarrow> 'v \<Rightarrow> ('k \<times> 'v) list" where
  "Map_set [] k v = [(k, v)]"
| "Map_set ((k', v') # m) k v =
     (if k' = k then (k, v) # m else (k', v') # Map_set m k v)"

definition Map_get :: "('k \<times> 'v) list \<Rightarrow> 'k \<Rightarrow> 'v option" where
  "Map_get m k = map_of m k"

definition Map_of_entries :: "('k \<times> 'v) list \<Rightarrow> ('k \<times> 'v) list" where
  "Map_of_entries es = foldl (\<lambda>m (k, v). Map_set m k v) [] es"

text \<open>
  A content state holds its block map and the selections before and after the change
  that produced it. The record is polymorphic in the block map and in the selections:
  \<open>ContentState\<close> is the instance with the declared types of the sources, a map from
  string keys to blocks and two selection states.
\<close>

record ('m, 's) ContentState_of =
  blockMap :: 'm
  selectionBefore :: 's
  selectionAfter :: 's

type_synonym ContentState = "(BlockMap, SelectionState) ContentState_of"

subsection \<open>Arrays\<close>

text \<open>
  \<open>indexOf\<close> and \<open>lastIndexOf\<close> return \<open>-1\<close> when the element is absent; reading an
  array outside its bounds gives \<open>undefined\<close>, here \<open>None\<close>.
\<close>

fun indexOf :: "'a list \<Rightarrow> 'a \<Rightarrow> int" where
  "indexOf [] x = - 1"
| "indexOf (y # ys) x =
     (if y = x then 0 else (let i = indexOf ys x in if i < 0 then - 1 else i + 1))"

fun lastIndexOf :: "'a list \<Rightarrow> 'a \<Rightarrow> int" where
  "lastIndexOf [] x = - 1"
| "lastIndexOf (y # ys) x =
     (let i = lastIndexOf ys x in if 0 \<le> i then i + 1 else if y = x then 0 else - 1)"

definition element_at :: "'a list \<Rightarrow> int \<Rightarrow> 'a option" where
  "element_at xs i = (if 0 \<le> i \<and> i < int (length xs) then Some (xs ! nat i) else None)"

subsection \<open>ContentState: neighbouring keys\<close>

definition getKeyBefore :: "ContentState \<Rightarrow> string \<Rightarrow> string option" where
  "getKeyBefore c k =
     (let keys = map fst (blockMap c); index = lastIndexOf keys k
      in element_at keys (index + 1))"

definition getKeyAfter :: "ContentState \<Rightarrow> string \<Rightarrow> string option" where
  "getKeyAfter c k =
     (let keys = map fst (blockMap c); index = indexOf keys k
      in element_at keys (index + 1))"

subsection \<open>Strings and array slices\<close>

text \<open>
  \<open>slice xs s e\<close> is \<open>xs.slice(s, e)\<close> and \<open>slice_from xs s\<close> is \<open>xs.slice(s)\<close>, for
  offsets that are not negative: both bounds are cut at the length, and the result is
  empty when \<open>e \<le> s\<close>.
\<close>

definition slice :: "'a list \<Rightarrow> nat \<Rightarrow> nat \<Rightarrow> 'a list" where
  "slice xs s e = take (e - s) (drop s xs)"

definition slice_from :: "'a list \<Rightarrow> nat \<Rightarrow> 'a list" where
  "slice_from xs s = drop s xs"

section \<open>Transactions on a content state\<close>

subsection \<open>insertIntoList and insertTextIntoContentState\<close>

text \<open>
  \<open>insertIntoList\<close> copies the target and pushes the new elements one by one when the
  offset is the length of the target, unshifts them in reverse order when the offset is
  \<open>0\<close>, and concatenates the two slices around them otherwise.
\<close>

definition insertIntoList :: "'a list \<Rightarrow> 'a list \<Rightarrow> nat \<Rightarrow> 'a list" where
  "insertIntoList targetList toInsert offset =
     (if offset = length targetList then
        foldl (\<lambda>returnList c. returnList @ [c]) targetList toInsert
      else if offset = 0 then
        foldl (\<lambda>returnList c. c # returnList) targetList (rev toInsert)
      else
        (let head = slice targetList 0 offset; tail = slice_from targetList offset
         in head @ toInsert @ tail))"

text \<open>
  \<open>insertTextIntoContentState\<close>: the \<open>invariant\<close> on a collapsed selection comes first,
  then the test for an empty text. \<open>blockMap.get(key)\<close> is \<open>undefined\<close> for a key that
  the map does not have, and the call \<open>block.getText()\<close> then throws a TypeError.

  The module requires \<open>insertIntoList\<close>, \<open>inheritAndUpdate\<close> and \<open>invariant\<close>, and
  imports \<open>ContentState\<close> and \<open>SelectionState\<close> with \<open>import type\<close> only: as values
  these two names are not bound. The function builds the new block and the new block
  map and then evaluates \<open>ContentState.set(...)\<close>, where reading \<open>ContentState\<close>
  throws a ReferenceError.
\<close>

definition insertTextIntoContentState ::
  "ContentState \<Rightarrow> SelectionState \<Rightarrow> string \<Rightarrow> CharacterMetadata \<Rightarrow> js_error + ContentState"
where
  "insertTextIntoContentState contentState selectionState txt characterMetadata =
     (if \<not> isCollapsed selectionState then Inl InvariantViolation
      else
        let len = length txt in
        if len = 0 then Inr contentState
        else
          let bm = blockMap contentState;
              k = getStartKey selectionState;
              offset = getStartOffset selectionState
          in case Map_get bm k of
               None \<Rightarrow> Inl TypeError
             | Some block \<Rightarrow>
                 let blockText' = blockText block;
                     newBlock = block
                       \<lparr>characterList :=
                          insertIntoList (characterList block)
                            (replicate len characterMetadata) offset,
                        blockText :=
                          slice blockText' 0 offset @ txt @
                          slice blockText' offset (getLength block)\<rparr>;
                     newOffset = offset + len;
                     newBlockMap = Map_set bm k newBlock
                 in Inl ReferenceError)"

subsection \<open>removeFromList and removeRangeFromContentState\<close>

text \<open>
  The character list of a block is a JavaScript array. \<open>removeFromList\<close> assigns the
  result of \<open>targetList.shift()\<close> to \<open>targetList\<close>: \<open>Array.prototype.shift\<close> removes
  the first element of the array in place and returns that element, or \<open>undefined\<close>
  for an empty array. So after one turn of the first loop the variable holds a character
  or \<open>undefined\<close>, neither of which has a method \<open>shift\<close>. When the start offset is
  not \<open>0\<close> the condition of the second branch calls \<open>targetList.count()\<close>, a method
  that an array does not have; the remaining branches are never reached.

  \<open>target\<close> is the value of the variable \<open>targetList\<close>: the array it was called
  with, an element of it, or \<open>undefined\<close>. The functions return the contents of that
  array after the call together with the outcome.
\<close>

datatype target = TargetArray | Element CharacterMetadata | Undefined

function shift_while ::
  "CharacterMetadata list \<Rightarrow> target \<Rightarrow> nat \<Rightarrow> nat
     \<Rightarrow> CharacterMetadata list \<times> (js_error + target)"
where
  "shift_while arr t startOffset endOffset =
     (if startOffset < endOffset then
        (case t of
           TargetArray \<Rightarrow>
             (case arr of
                [] \<Rightarrow> shift_while [] Undefined (Suc startOffset) endOffset
              | x # xs \<Rightarrow> shift_while xs (Element x) (Suc startOffset) endOffset)
         | Element c \<Rightarrow> (arr, Inl TypeError)
         | Undefined \<Rightarrow> (arr, Inl TypeError))
      else (arr, Inr t))"
  by pat_completeness auto
termination
  by (relation "measure (\<lambda>(arr, t, startOffset, endOffset). endOffset - startOffset)") auto

definition removeFromList ::
  "CharacterMetadata list \<Rightarrow> nat \<Rightarrow> nat \<Rightarrow> CharacterMetadata list \<times> (js_error + target)"
where
  "removeFromList targetList startOffset endOffset =
     (if startOffset = 0 then shift_while targetList TargetArray startOffset endOffset
      else (targetList, Inl TypeError))"

text \<open>
  The loop of \<open>removeRangeFromContentState\<close> over the block map, for blocks without
  tree links (a \<open>ContentBlock\<close> is not an instance of \<open>ContentBlockNode\<close>, and
  \<open>parentAncestors\<close> stays empty): the entry of the start key only moves the loop to
  state 1, the entry of the end key is collected and ends state 1, the entries in
  between are collected. The function returns the keys of the collected entries.
\<close>

fun removeRange_loop :: "nat \<Rightarrow> string \<Rightarrow> string \<Rightarrow> BlockMap \<Rightarrow> string list" where
  "removeRange_loop loopState startKey endKey [] = []"
| "removeRange_loop loopState startKey endKey ((k, b) # rest) =
     (if loopState = 0 \<and> k = startKey then removeRange_loop 1 startKey endKey rest
      else if loopState = 1 \<and> k = endKey then k # removeRange_loop 2 startKey endKey rest
      else if loopState = 1 then k # removeRange_loop loopState startKey endKey rest
      else removeRange_loop loopState startKey endKey rest)"

text \<open>
  \<open>modifiedStart\<close> inherits from the start block and has a new text and a new
  \<open>characterList\<close>: the value left by \<open>removeFromList\<close> when the start and the end
  block are the same, the concatenation of two slices otherwise.
\<close>

record ModifiedStart =
  prototype :: ContentBlock
  newText :: string
  newCharacterList :: "target + CharacterMetadata list"

text \<open>
  Each collected entry \<open>[k, _]\<close> is mapped to \<open>modifiedStart\<close> when \<open>k\<close> is the start
  key and to \<open>null\<close> otherwise. The new block map is then built from
  \<open>[...blockMap.entries(), ...blockMapUpdatedEntries]\<close> filtered with
  \<open>([_, block]) => !!block\<close>. The elements of \<open>blockMapUpdatedEntries\<close> are now
  \<open>null\<close> or the block \<open>modifiedStart\<close>, not entries: the pattern \<open>[_, block]\<close>
  throws a TypeError on each of them, since neither can be iterated. The filter returns
  only when there is no such element, and then keeps every entry of the block map.

  When the start and the end block are the same and the start offset is \<open>0\<close>, the
  array of the block has lost its first element in place, and the block of the resulting
  map is that block.

  The test \<open>startBlock === endBlock\<close> is made on what the two lookups return: the
  blocks of two keys of a block map are two objects, which differ in their \<open>key\<close>.
\<close>

definition removeRangeFromContentState ::
  "ContentState \<Rightarrow> SelectionState \<Rightarrow> js_error + ContentState"
where
  "removeRangeFromContentState contentState selectionState =
     (if isCollapsed selectionState then Inr contentState
      else
        let bm = blockMap contentState;
            startKey = getStartKey selectionState;
            startOffset = getStartOffset selectionState;
            endKey = getEndKey selectionState;
            endOffset = getEndOffset selectionState;
            startBlock = Map_get bm startKey;
            endBlock = Map_get bm endKey
        in case (startBlock, endBlock) of
             (None, _) \<Rightarrow> Inl TypeError
           | (Some sb, None) \<Rightarrow> Inl TypeError
           | (Some sb, Some eb) \<Rightarrow>
              (case (if startBlock = endBlock
                     then (case removeFromList (characterList sb) startOffset endOffset of
                             (arr, Inl e) \<Rightarrow> Inl e
                           | (arr, Inr t) \<Rightarrow>
                               Inr (Map_set bm startKey (sb\<lparr>characterList := arr\<rparr>), Inl t))
                     else Inr (bm,
                            Inr (slice (characterList sb) 0 startOffset @
                                 slice_from (characterList eb) endOffset)))
               of
                 Inl e \<Rightarrow> Inl e
               | Inr (bm', characterList') \<Rightarrow>
                   let modifiedStart =
                         \<lparr>prototype = sb,
                          newText = slice (blockText sb) 0 startOffset @
                                    slice_from (blockText eb) endOffset,
                          newCharacterList = characterList'\<rparr>;
                       blockMapUpdatedEntries =
                         map (\<lambda>k. if k = startKey then Some modifiedStart else None)
                           (removeRange_loop 0 startKey endKey bm)
                   in if blockMapUpdatedEntries \<noteq> [] then Inl TypeError
                      else Inr (contentState
                        \<lparr>blockMap := Map_of_entries bm',
                         selectionBefore := selectionState,
                         selectionAfter := selectionState
                           \<lparr>anchorKey := startKey, anchorOffset := startOffset,
                            focusKey := startKey, focusOffset := startOffset,
                            isBackward := False\<rparr>\<rparr>)))"

subsection \<open>CharacterMetadata: the new style set and entity\<close>

text \<open>
  \<open>Set_add\<close> and \<open>Set_delete\<close> are \<open>Set.prototype.add\<close> and \<open>delete\<close> on a copy of
  the style set. \<open>applyStyle\<close>, \<open>removeStyle\<close> and \<open>applyEntity\<close> give the fields of
  the object that \<open>CharacterMetadata.set\<close> creates from the record.
\<close>

definition Set_add :: "'a list \<Rightarrow> 'a \<Rightarrow> 'a list" where
  "Set_add xs x = (if x \<in> set xs then xs else xs @ [x])"

definition Set_delete :: "'a list \<Rightarrow> 'a \<Rightarrow> 'a list" where
  "Set_delete xs x = filter (\<lambda>y. y \<noteq> x) xs"

definition applyStyle :: "CharacterMetadata \<Rightarrow> string \<Rightarrow> CharacterMetadata" where
  "applyStyle record' tag = record'\<lparr>style := Set_add (style record') tag\<rparr>"

definition removeStyle :: "CharacterMetadata \<Rightarrow> string \<Rightarrow> CharacterMetadata" where
  "removeStyle record' tag = record'\<lparr>style := Set_delete (style record') tag\<rparr>"

definition applyEntity :: "CharacterMetadata \<Rightarrow> string option \<Rightarrow> CharacterMetadata" where
  "applyEntity record' entityKey =
     (if entity record' = entityKey then record' else record'\<lparr>entity := entityKey\<rparr>)"

subsection \<open>modifyBlockForContentState and modifyInlineStyle\<close>

text \<open>
  The loop of \<open>modifyBlockForContentState\<close>: the entry of the start key moves the loop
  to state 1 and is not collected; in state 1 the entry of the end key is collected with
  the operation applied and ends the state, and every other entry is collected with the
  operation applied. The operation is called with the block as its only argument.
\<close>

fun modifyBlock_loop ::
  "nat \<Rightarrow> string \<Rightarrow> string \<Rightarrow> (ContentBlock \<Rightarrow> js_error + ContentBlock) \<Rightarrow> BlockMap
     \<Rightarrow> js_error + BlockMap"
where
  "modifyBlock_loop loopState startKey endKey operation [] = Inr []"
| "modifyBlock_loop loopState startKey endKey operation ((k, b) # rest) =
     (if loopState = 0 \<and> k = startKey then modifyBlock_loop 1 startKey endKey operation rest
      else if loopState = 1 then
        (case operation b of
           Inl e \<Rightarrow> Inl e
         | Inr b' \<Rightarrow>
            (case modifyBlock_loop (if k = endKey then 2 else loopState)
                    startKey endKey operation rest of
               Inl e \<Rightarrow> Inl e
             | Inr entries \<Rightarrow> Inr ((k, b') # entries)))
      else modifyBlock_loop loopState startKey endKey operation rest)"

definition modifyBlockForContentState ::
  "ContentState \<Rightarrow> SelectionState \<Rightarrow> (ContentBlock \<Rightarrow> js_error + ContentBlock)
     \<Rightarrow> js_error + ContentState"
where
  "modifyBlockForContentState contentState selectionState operation =
     (let startKey = getStartKey selectionState;
          endKey = getEndKey selectionState;
          bm = blockMap contentState
      in case modifyBlock_loop 0 startKey endKey operation bm of
           Inl e \<Rightarrow> Inl e
         | Inr blockMapUpdatedEntries \<Rightarrow>
             Inr (contentState
               \<lparr>blockMap := Map_of_entries (bm @ blockMapUpdatedEntries),
                selectionBefore := selectionState,
                selectionAfter := selectionState\<rparr>))"

text \<open>
  The loop of the style operation over \<open>[sliceStart, sliceEnd)\<close>. Reading \<open>chars\<close>
  past its end gives \<open>undefined\<close>, and \<open>applyStyle\<close> and \<open>removeStyle\<close> then throw a
  TypeError at \<open>record.getStyle()\<close>.
\<close>

function style_while ::
  "CharacterMetadata list \<Rightarrow> nat \<Rightarrow> nat \<Rightarrow> string \<Rightarrow> bool
     \<Rightarrow> js_error + CharacterMetadata list"
where
  "style_while chars sliceStart sliceEnd inlineStyle addOrRemove =
     (if sliceStart < sliceEnd then
        (if sliceStart < length chars then
           (let current = chars ! sliceStart
            in style_while
                 (chars[sliceStart :=
                    (if addOrRemove then applyStyle current inlineStyle
                     else removeStyle current inlineStyle)])
                 (Suc sliceStart) sliceEnd inlineStyle addOrRemove)
         else Inl TypeError)
      else Inr chars)"
  by pat_completeness auto
termination
  by (relation "measure (\<lambda>(chars, sliceStart, sliceEnd, inlineStyle, addOrRemove).
        sliceEnd - sliceStart)") auto

text \<open>
  The operation that \<open>modifyInlineStyle\<close> passes has two parameters, the block and
  its key. \<open>modifyBlockForContentState\<close> calls it with the block only, so the key is
  \<open>undefined\<close>, here \<open>None\<close>.
\<close>

definition modifyInlineStyle_operation ::
  "string \<Rightarrow> nat \<Rightarrow> string \<Rightarrow> nat \<Rightarrow> string \<Rightarrow> bool \<Rightarrow> ContentBlock \<Rightarrow> string option
     \<Rightarrow> js_error + ContentBlock"
where
  "modifyInlineStyle_operation startKey startOffset endKey endOffset inlineStyle addOrRemove
       block blockKey =
     (let sliceStart =
            (if startKey = endKey then startOffset
             else if blockKey = Some startKey then startOffset else 0);
          sliceEnd =
            (if startKey = endKey then endOffset
             else if blockKey = Some endKey then endOffset else getLength block)
      in case style_while (characterList block) sliceStart sliceEnd inlineStyle addOrRemove of
           Inl e \<Rightarrow> Inl e
         | Inr chars \<Rightarrow> Inr (block\<lparr>characterList := chars\<rparr>))"

definition modifyInlineStyle ::
  "ContentState \<Rightarrow> SelectionState \<Rightarrow> string \<Rightarrow> bool \<Rightarrow> js_error + ContentState"
where
  "modifyInlineStyle contentState selectionState inlineStyle addOrRemove =
     (let startKey = getStartKey selectionState;
          startOffset = getStartOffset selectionState;
          endKey = getEndKey selectionState;
          endOffset = getEndOffset selectionState
      in modifyBlockForContentState contentState selectionState
           (\<lambda>block. modifyInlineStyle_operation startKey startOffset endKey endOffset
                      inlineStyle addOrRemove block None))"

definition ContentStateInlineStyle_add ::
  "ContentState \<Rightarrow> SelectionState \<Rightarrow> string \<Rightarrow> js_error + ContentState"
where
  "ContentStateInlineStyle_add contentState selectionState inlineStyle =
     modifyInlineStyle contentState selectionState inlineStyle True"

definition ContentStateInlineStyle_remove ::
  "ContentState \<Rightarrow> SelectionState \<Rightarrow> string \<Rightarrow> js_error + ContentState"
where
  "ContentStateInlineStyle_remove contentState selectionState inlineStyle =
     modifyInlineStyle contentState selectionState inlineStyle False"

subsection \<open>applyEntityToContentBlock and applyEntityToContentState\<close>

function entity_while ::
  "CharacterMetadata list \<Rightarrow> nat \<Rightarrow> nat \<Rightarrow> string option
     \<Rightarrow> js_error + CharacterMetadata list"
where
  "entity_while characterList' start en entityKey =
     (if start < en then
        (if start < length characterList' then
           entity_while
             (characterList'[start := applyEntity (characterList' ! start) entityKey])
             (Suc start) en entityKey
         else Inl TypeError)
      else Inr characterList')"
  by pat_completeness auto
termination
  by (relation "measure (\<lambda>(characterList', start, en, entityKey). en - start)") auto

definition applyEntityToContentBlock ::
  "ContentBlock \<Rightarrow> nat \<Rightarrow> nat \<Rightarrow> string option \<Rightarrow> js_error + ContentBlock"
where
  "applyEntityToContentBlock contentBlock start en entityKey =
     (case entity_while (characterList contentBlock) start en entityKey of
        Inl e \<Rightarrow> Inl e
      | Inr characterList' \<Rightarrow> Inr (contentBlock\<lparr>characterList := characterList'\<rparr>))"

text \<open>
  The loop of \<open>applyEntityToContentState\<close> collects the rewritten blocks themselves,
  from the start key up to the end key, where it breaks.
\<close>

function applyEntity_loop ::
  "nat \<Rightarrow> string \<Rightarrow> nat \<Rightarrow> string \<Rightarrow> nat \<Rightarrow> string option \<Rightarrow> BlockMap
     \<Rightarrow> js_error + ContentBlock list"
where
  "applyEntity_loop loopState startKey startOffset endKey endOffset entityKey [] = Inr []"
| "applyEntity_loop loopState startKey startOffset endKey endOffset entityKey ((k, block) # rest) =
     (if (if loopState = 0 \<and> k = startKey then 1 else loopState) = 1 then
        (case applyEntityToContentBlock block
                (if k = startKey then startOffset else 0)
                (if k = endKey then endOffset else getLength block) entityKey of
           Inl e \<Rightarrow> Inl e
         | Inr block' \<Rightarrow>
             if k = endKey then Inr [block']
             else (case applyEntity_loop 1 startKey startOffset endKey endOffset entityKey rest of
                     Inl e \<Rightarrow> Inl e
                   | Inr blocks \<Rightarrow> Inr (block' # blocks)))
      else applyEntity_loop loopState startKey startOffset endKey endOffset entityKey rest)"
  by pat_completeness auto
termination
  by (relation "measure (\<lambda>(loopState, startKey, startOffset, endKey, endOffset, entityKey, bm).
        length bm)") auto

text \<open>
  The items given to \<open>new Map\<close> are the entries of the block map followed by the
  collected blocks. The constructor reads the properties \<open>0\<close> and \<open>1\<close> of each item as
  key and value. An entry is a two-element array; a block has neither property, so it
  contributes the key \<open>undefined\<close> with the value \<open>undefined\<close>. The resulting map is
  not a map from strings to blocks: its keys and values may be \<open>undefined\<close>.
\<close>

datatype Map_item = Entry string ContentBlock | BlockObject ContentBlock

type_synonym UntypedBlockMap = "(string option \<times> ContentBlock option) list"

fun item_entry :: "Map_item \<Rightarrow> string option \<times> ContentBlock option" where
  "item_entry (Entry k b) = (Some k, Some b)"
| "item_entry (BlockObject b) = (None, None)"

definition Map_of_items :: "Map_item list \<Rightarrow> UntypedBlockMap" where
  "Map_of_items items = Map_of_entries (map item_entry items)"

definition applyEntityToContentState ::
  "ContentState \<Rightarrow> SelectionState \<Rightarrow> string option
     \<Rightarrow> js_error + (UntypedBlockMap, SelectionState) ContentState_of"
where
  "applyEntityToContentState contentState selectionState entityKey =
     (let bm = blockMap contentState;
          startKey = getStartKey selectionState;
          startOffset = getStartOffset selectionState;
          endKey = getEndKey selectionState;
          endOffset = getEndOffset selectionState
      in case applyEntity_loop 0 startKey startOffset endKey endOffset entityKey bm of
           Inl e \<Rightarrow> Inl e
         | Inr newBlockEntries \<Rightarrow>
             Inr \<lparr>blockMap =
                    Map_of_items (map (\<lambda>(k, b). Entry k b) bm @ map BlockObject newBlockEntries),
                  selectionBefore = selectionState,
                  selectionAfter = selectionState\<rparr>)"

section \<open>The pool of CharacterMetadata objects\<close>

text \<open>
  \<open>CharacterMetadata.create\<close> shares objects through a pool, a \<open>Map\<close> from the hash
  of a configuration to the object created for it. Here the identity of an object
  matters, so objects live in a heap: a reference is the index of the object in the list
  \<open>objects\<close>, and two references are the same object exactly when they are equal.
  The object \<open>CharacterMetadata.EMPTY\<close> is created first and put into the pool under
  the hash of the default configuration.
\<close>

record CharacterMetadataConfig =
  config_style :: "string list option"
  config_entity :: "string option"

definition EMPTY_STYLE :: "string list" where
  "EMPTY_STYLE = []"

definition defaultConfig :: CharacterMetadata where
  "defaultConfig = \<lparr>style = EMPTY_STYLE, entity = None\<rparr>"

fun join :: "string \<Rightarrow> string list \<Rightarrow> string" where
  "join sep [] = []"
| "join sep [x] = x"
| "join sep (x # y # ys) = x @ sep @ join sep (y # ys)"

definition hashDraftInlineStyle :: "string list option \<Rightarrow> string" where
  "hashDraftInlineStyle styleSet =
     (case styleSet of None \<Rightarrow> [] | Some s \<Rightarrow> join [CHR 0x0A] s)"

definition hashCharacterMetadataConfig :: "CharacterMetadata \<Rightarrow> string" where
  "hashCharacterMetadataConfig config =
     hashDraftInlineStyle (Some (style config)) @
     (case entity config of None \<Rightarrow> [] | Some e \<Rightarrow> e)"

record Heap =
  objects :: "CharacterMetadata list"
  pool :: "(string \<times> nat) list"

definition EMPTY :: nat where
  "EMPTY = 0"

definition initial_heap :: Heap where
  "initial_heap =
     \<lparr>objects = [defaultConfig],
      pool = [(hashCharacterMetadataConfig defaultConfig, EMPTY)]\<rparr>"

definition CharacterMetadata_create :: "CharacterMetadataConfig option \<Rightarrow> Heap \<Rightarrow> nat \<times> Heap" where
  "CharacterMetadata_create config h =
     (case config of
        None \<Rightarrow> (EMPTY, h)
      | Some cfg \<Rightarrow>
          let mergedConfig =
                \<lparr>style = (case config_style cfg of None \<Rightarrow> style defaultConfig | Some s \<Rightarrow> s),
                 entity = (case config_entity cfg of None \<Rightarrow> entity defaultConfig | Some e \<Rightarrow> Some e)\<rparr>;
              poolKey = hashCharacterMetadataConfig mergedConfig
          in case Map_get (pool h) poolKey of
               Some existing \<Rightarrow> (existing, h)
             | None \<Rightarrow>
                 let newCharacter = length (objects h)
                 in (newCharacter,
                     h\<lparr>objects := objects h @ [mergedConfig],
                       pool := Map_set (pool h) poolKey newCharacter\<rparr>))"

text \<open>
  \<open>CharacterMetadata.set\<close> is \<open>inheritAndUpdate\<close>: it creates a new object whose
  prototype is the record and assigns the given properties to it. The new object reads
  every other property from the record. It is not looked up in the pool and not put
  there.
\<close>

record CharacterMetadataPut =
  put_style :: "string list option"
  put_entity :: "string option option"

definition inheritAndUpdate :: "CharacterMetadata \<Rightarrow> CharacterMetadataPut \<Rightarrow> CharacterMetadata" where
  "inheritAndUpdate obj update =
     \<lparr>style = (case put_style update of None \<Rightarrow> style obj | Some s \<Rightarrow> s),
      entity = (case put_entity update of None \<Rightarrow> entity obj | Some e \<Rightarrow> e)\<rparr>"

definition CharacterMetadata_set :: "nat \<Rightarrow> CharacterMetadataPut \<Rightarrow> Heap \<Rightarrow> nat \<times> Heap" where
  "CharacterMetadata_set characterMetadata put h =
     (length (objects h),
      h\<lparr>objects := objects h @ [inheritAndUpdate (objects h ! characterMetadata) put]\<rparr>)"

definition CharacterMetadata_applyStyle :: "nat \<Rightarrow> string \<Rightarrow> Heap \<Rightarrow> nat \<times> Heap" where
  "CharacterMetadata_applyStyle record' tag h =
     (let newStyle = Set_add (style (objects h ! record')) tag
      in CharacterMetadata_set record' \<lparr>put_style = Some newStyle, put_entity = None\<rparr> h)"

definition CharacterMetadata_removeStyle :: "nat \<Rightarrow> string \<Rightarrow> Heap \<Rightarrow> nat \<times> Heap" where
  "CharacterMetadata_removeStyle record' tag h =
     (let newStyle = Set_delete (style (objects h ! record')) tag
      in CharacterMetadata_set record' \<lparr>put_style = Some newStyle, put_entity = None\<rparr> h)"

definition pooled :: "Heap \<Rightarrow> nat \<Rightarrow> bool" where
  "pooled h r \<longleftrightarrow> r \<in> snd ` set (pool h)"

section \<open>EditorState\<close>

subsection \<open>Objects and their identity\<close>

text \<open>
  \<open>EditorState.push\<close> and \<open>EditorState.set\<close> compare content states, selections and
  blocks with \<open>===\<close> and \<open>!==\<close>: two references are equal when they are the same
  object, whatever the objects hold. For the editor state an object is therefore its
  address together with what it holds, and \<open>same_object\<close> compares the addresses only.
  A content state of the editor holds block objects and selection objects.
\<close>

record 'a object =
  address :: nat
  contents :: 'a

definition same_object :: "'a object \<Rightarrow> 'a object \<Rightarrow> bool" where
  "same_object x y \<longleftrightarrow> address x = address y"

type_synonym Selection = "SelectionState object"

type_synonym Block = "ContentBlock object"

type_synonym Content = "((string \<times> Block) list, Selection) ContentState_of"

subsection \<open>The state and its caches\<close>

text \<open>
  The tree map and the direction map are caches computed from the content:
  \<open>generate\<close> stands for \<open>BlockTree.generate\<close>, which depends on the decorator object,
  and \<open>getDirection\<close> and \<open>defaultDir\<close> for the bidi service of the \<open>fbjs\<close> library,
  which computes the direction of a text from the text and the direction of the text
  before it. They are parameters of the model.
\<close>

record ('d, 't, 'r) Services =
  generate :: "Content \<Rightarrow> Block \<Rightarrow> 'd option \<Rightarrow> 't"
  getDirection :: "string \<Rightarrow> 'r \<Rightarrow> 'r"
  defaultDir :: 'r

record ('d, 't, 'r) EditorState =
  allowUndo :: bool
  currentContent :: "Content object"
  decorator :: "'d option"
  directionMap :: "(string \<times> 'r) list"
  forceSelection :: bool
  inCompositionMode :: bool
  inlineStyleOverride :: "string list option"
  lastChangeType :: "string option"
  nativelyRenderedContent :: "Content object option"
  redoStack :: "Content object list"
  selection :: Selection
  treeMap :: "(string \<times> 't) list"
  undoStack :: "Content object list"

text \<open>
  The properties that \<open>push\<close>, \<open>undo\<close> and \<open>redo\<close> pass to \<open>EditorState.set\<close>;
  \<open>None\<close> is a property that is not passed. None of them passes a decorator, so
  \<open>set\<close> keeps the decorator and takes the branch that regenerates the tree map for
  the blocks that changed and assigns the properties to the new state.
\<close>

record ('t, 'r) EditorStateConfig =
  new_currentContent :: "Content object option"
  new_directionMap :: "(string \<times> 'r) list option"
  new_forceSelection :: "bool option"
  new_inlineStyleOverride :: "string list option option"
  new_lastChangeType :: "string option option"
  new_nativelyRenderedContent :: "Content object option option"
  new_redoStack :: "Content object list option"
  new_selection :: "Selection option"
  new_undoStack :: "Content object list option"

definition no_properties :: "('t, 'r) EditorStateConfig" where
  "no_properties =
     \<lparr>new_currentContent = None, new_directionMap = None, new_forceSelection = None,
      new_inlineStyleOverride = None, new_lastChangeType = None,
      new_nativelyRenderedContent = None, new_redoStack = None, new_selection = None,
      new_undoStack = None\<rparr>"

definition assign :: "'a \<Rightarrow> 'a option \<Rightarrow> 'a" where
  "assign old new = (case new of None \<Rightarrow> old | Some v \<Rightarrow> v)"

definition Object_assign ::
  "('d, 't, 'r) EditorState \<Rightarrow> ('t, 'r) EditorStateConfig \<Rightarrow> ('d, 't, 'r) EditorState"
where
  "Object_assign newState put =
     newState
       \<lparr>currentContent := assign (currentContent newState) (new_currentContent put),
        directionMap := assign (directionMap newState) (new_directionMap put),
        forceSelection := assign (forceSelection newState) (new_forceSelection put),
        inlineStyleOverride := assign (inlineStyleOverride newState) (new_inlineStyleOverride put),
        lastChangeType := assign (lastChangeType newState) (new_lastChangeType put),
        nativelyRenderedContent :=
          assign (nativelyRenderedContent newState) (new_nativelyRenderedContent put),
        redoStack := assign (redoStack newState) (new_redoStack put),
        selection := assign (selection newState) (new_selection put),
        undoStack := assign (undoStack newState) (new_undoStack put)\<rparr>"

fun directions ::
  "(string \<Rightarrow> 'r \<Rightarrow> 'r) \<Rightarrow> 'r \<Rightarrow> (string \<times> Block) list \<Rightarrow> (string \<times> 'r) list"
where
  "directions f lastDir [] = []"
| "directions f lastDir ((k, block) # rest) =
     (let direction = f (blockText (contents block)) lastDir
      in (k, direction) # directions f direction rest)"

definition getDirectionMap ::
  "('d, 't, 'r) Services \<Rightarrow> Content object \<Rightarrow> (string \<times> 'r) list option
     \<Rightarrow> (string \<times> 'r) list"
where
  "getDirectionMap sv content prevBidiMap =
     (let entries =
            directions (getDirection sv) (defaultDir sv) (blockMap (contents content));
          bidiMap = Map_of_entries entries
      in case prevBidiMap of
           None \<Rightarrow> bidiMap
         | Some prev \<Rightarrow>
             (let bidiChanged = list_ex (\<lambda>(k, direction). Map_get prev k \<noteq> Some direction) entries
              in if \<not> bidiChanged then prev else bidiMap))"

text \<open>
  \<open>regenerateTreeForNewBlocks\<close> generates a tree for every block of the new map that
  is not the same object as the block of that key in the current map, also when the
  current map has no block for the key. The trees are generated with what the current
  content holds.
\<close>

definition regenerateTreeForNewBlocks ::
  "('d, 't, 'r) Services \<Rightarrow> ('d, 't, 'r) EditorState \<Rightarrow> (string \<times> Block) list \<Rightarrow> 'd option
     \<Rightarrow> (string \<times> 't) list"
where
  "regenerateTreeForNewBlocks sv editorState newBlockMap decorator' =
     (let contentState = contents (currentContent editorState);
          prevBlockMap = blockMap contentState;
          prevTreeMap = treeMap editorState;
          newTreeMapEntries =
            prevTreeMap @
            map (\<lambda>(k, block). (k, generate sv contentState block decorator'))
              (filter
                 (\<lambda>(k, block).
                    case Map_get prevBlockMap k of
                      None \<Rightarrow> True
                    | Some prevBlock \<Rightarrow> \<not> same_object block prevBlock)
                 newBlockMap)
      in Map_of_entries newTreeMapEntries)"

definition EditorState_set ::
  "('d, 't, 'r) Services \<Rightarrow> ('d, 't, 'r) EditorState \<Rightarrow> ('t, 'r) EditorStateConfig
     \<Rightarrow> ('d, 't, 'r) EditorState"
where
  "EditorState_set sv editorState put =
     (let decorator' = decorator editorState;
          newContent = assign (currentContent editorState) (new_currentContent put);
          existingContent = currentContent editorState;
          newState =
            (if \<not> same_object newContent existingContent
             then editorState
               \<lparr>treeMap :=
                  regenerateTreeForNewBlocks sv editorState (blockMap (contents newContent))
                    decorator'\<rparr>
             else editorState)
      in Object_assign newState put)"

definition mustBecomeBoundary :: "('d, 't, 'r) EditorState \<Rightarrow> string \<Rightarrow> bool" where
  "mustBecomeBoundary editorState changeType =
     (Some changeType \<noteq> lastChangeType editorState \<or>
      (changeType \<noteq> ''insert-characters'' \<and>
       changeType \<noteq> ''backspace-character'' \<and>
       changeType \<noteq> ''delete-character''))"

definition overrideChangeTypes :: "string list" where
  "overrideChangeTypes = [''adjust-depth'', ''change-block-type'', ''split-block'']"

text \<open>
  \<open>ContentState.set\<close> is \<open>inheritAndUpdate\<close>: it creates a new object that holds what
  the content state holds, with the given properties replaced. \<open>push\<close> calls it at
  most once; \<open>newAddress\<close> is the address of the object it creates there, which the
  run-time system chooses among the addresses that no other object has.
\<close>

definition ContentState_set_selectionBefore ::
  "nat \<Rightarrow> Content object \<Rightarrow> Selection \<Rightarrow> Content object"
where
  "ContentState_set_selectionBefore newAddress contentState selectionBefore' =
     \<lparr>address = newAddress,
      contents = (contents contentState)\<lparr>selectionBefore := selectionBefore'\<rparr>\<rparr>"

definition push ::
  "('d, 't, 'r) Services \<Rightarrow> nat \<Rightarrow> ('d, 't, 'r) EditorState \<Rightarrow> Content object \<Rightarrow> string \<Rightarrow> bool
     \<Rightarrow> ('d, 't, 'r) EditorState"
where
  "push sv newAddress editorState contentState changeType forceSelection' =
     (if same_object (currentContent editorState) contentState then editorState
      else
        let directionMap' = getDirectionMap sv contentState (Some (directionMap editorState))
        in if \<not> allowUndo editorState then
             EditorState_set sv editorState
               (no_properties
                  \<lparr>new_currentContent := Some contentState,
                   new_directionMap := Some directionMap',
                   new_lastChangeType := Some (Some changeType),
                   new_selection := Some (selectionAfter (contents contentState)),
                   new_forceSelection := Some forceSelection',
                   new_inlineStyleOverride := Some None\<rparr>)
           else
             let selection' = selection editorState;
                 currentContent' = currentContent editorState;
                 boundary =
                   (\<not> same_object selection' (selectionAfter (contents currentContent')) \<or>
                    mustBecomeBoundary editorState changeType);
                 undoStack' =
                   (if boundary then undoStack editorState @ [currentContent']
                    else undoStack editorState);
                 newContent =
                   (if boundary
                    then ContentState_set_selectionBefore newAddress contentState selection'
                    else if changeType = ''insert-characters'' \<or>
                            changeType = ''backspace-character'' \<or>
                            changeType = ''delete-character''
                    then ContentState_set_selectionBefore newAddress contentState
                           (selectionBefore (contents currentContent'))
                    else contentState);
                 inlineStyleOverride' =
                   (if indexOf overrideChangeTypes changeType = - 1 then None
                    else inlineStyleOverride editorState)
             in EditorState_set sv editorState
                  (no_properties
                     \<lparr>new_currentContent := Some newContent,
                      new_directionMap := Some directionMap',
                      new_undoStack := Some undoStack',
                      new_redoStack := Some [],
                      new_lastChangeType := Some (Some changeType),
                      new_selection := Some (selectionAfter (contents contentState)),
                      new_forceSelection := Some forceSelection',
                      new_inlineStyleOverride := Some inlineStyleOverride'\<rparr>))"

text \<open>
  \<open>undo\<close> reads \<open>undoStack[0]\<close>, which is \<open>undefined\<close> for an empty stack, and keeps
  \<open>undoStack.slice(1)\<close>; \<open>push\<close> and \<open>redo\<close> put a content at the end of the undo
  stack. \<open>redo\<close> treats the redo stack in the same way.
\<close>

definition undo ::
  "('d, 't, 'r) Services \<Rightarrow> ('d, 't, 'r) EditorState \<Rightarrow> ('d, 't, 'r) EditorState"
where
  "undo sv editorState =
     (if \<not> allowUndo editorState then editorState
      else
        case element_at (undoStack editorState) 0 of
          None \<Rightarrow> editorState
        | Some newCurrentContent \<Rightarrow>
            let currentContent' = currentContent editorState;
                directionMap' =
                  getDirectionMap sv newCurrentContent (Some (directionMap editorState))
            in EditorState_set sv editorState
                 (no_properties
                    \<lparr>new_currentContent := Some newCurrentContent,
                     new_directionMap := Some directionMap',
                     new_undoStack := Some (slice_from (undoStack editorState) 1),
                     new_redoStack := Some (redoStack editorState @ [currentContent']),
                     new_forceSelection := Some True,
                     new_inlineStyleOverride := Some None,
                     new_lastChangeType := Some (Some ''undo''),
                     new_nativelyRenderedContent := Some None,
                     new_selection := Some (selectionBefore (contents currentContent'))\<rparr>))"

definition redo ::
  "('d, 't, 'r) Services \<Rightarrow> ('d, 't, 'r) EditorState \<Rightarrow> ('d, 't, 'r) EditorState"
where
  "redo sv editorState =
     (if \<not> allowUndo editorState then editorState
      else
        case element_at (redoStack editorState) 0 of
          None \<Rightarrow> editorState
        | Some newCurrentContent \<Rightarrow>
            let currentContent' = currentContent editorState;
                directionMap' =
                  getDirectionMap sv newCurrentContent (Some (directionMap editorState))
            in EditorState_set sv editorState
                 (no_properties
                    \<lparr>new_currentContent := Some newCurrentContent,
                     new_directionMap := Some directionMap',
                     new_undoStack := Some (undoStack editorState @ [currentContent']),
                     new_redoStack := Some (slice_from (redoStack editorState) 1),
                     new_forceSelection := Some True,
                     new_inlineStyleOverride := Some None,
                     new_lastChangeType := Some (Some ''redo''),
                     new_nativelyRenderedContent := Some None,
                     new_selection := Some (selectionAfter (contents newCurrentContent))\<rparr>))"

text \<open>
  The equations of the loops are unfolded on demand only.
\<close>

declare shift_while.simps [simp del]
declare style_while.simps [simp del]
declare entity_while.simps [simp del]
declare applyEntity_loop.simps [simp del]

text \<open>
  Every reference in the pool is an object of the heap.
\<close>

definition wf_heap :: "Heap \<Rightarrow> bool" where
  "wf_heap h \<longleftrightarrow> list_all (\<lambda>(k, r). r < length (objects h)) (pool h)"

section \<open>Example documents and editor states\<close>

text \<open>
  A block \<open>a\<close> with the text \<open>Alpha\<close> and a block \<open>b\<close> with the text \<open>Bravo\<close>, both
  with characters without style and entity; cursors and ranges over them.
\<close>

definition blockAlpha :: ContentBlock where
  "blockAlpha =
     \<lparr>characterList = replicate 5 defaultConfig, data = [], depth = 0, key = ''a'',
      blockText = ''Alpha'', type = ''unstyled''\<rparr>"

definition blockBravo :: ContentBlock where
  "blockBravo =
     \<lparr>characterList = replicate 5 defaultConfig, data = [], depth = 0, key = ''b'',
      blockText = ''Bravo'', type = ''unstyled''\<rparr>"

definition cursor :: "string \<Rightarrow> nat \<Rightarrow> SelectionState" where
  "cursor k n =
     \<lparr>anchorKey = k, anchorOffset = n, focusKey = k, focusOffset = n,
      isBackward = False, hasFocus = True\<rparr>"

definition range :: "string \<Rightarrow> nat \<Rightarrow> string \<Rightarrow> nat \<Rightarrow> SelectionState" where
  "range k n k' n' =
     \<lparr>anchorKey = k, anchorOffset = n, focusKey = k', focusOffset = n',
      isBackward = False, hasFocus = True\<rparr>"

definition contentAlpha :: ContentState where
  "contentAlpha =
     \<lparr>blockMap = [(''a'', blockAlpha)], selectionBefore = cursor ''a'' 0,
      selectionAfter = cursor ''a'' 0\<rparr>"

definition contentAlphaBravo :: ContentState where
  "contentAlphaBravo =
     \<lparr>blockMap = [(''a'', blockAlpha), (''b'', blockBravo)], selectionBefore = cursor ''a'' 0,
      selectionAfter = cursor ''a'' 0\<rparr>"

text \<open>
  Objects for the editor state. The block \<open>Alpha\<close> is the object at address \<open>1\<close>, the
  cursor at offset \<open>n\<close> of block \<open>a\<close> is the object at address \<open>10 + n\<close>. The document
  \<open>documentAlpha\<close> at address \<open>2\<close> has the cursor at offset \<open>0\<close> before and after.
  \<open>typed n\<close> at address \<open>20 + n\<close> is a content state as typing leaves it: the cursor
  stands at offset \<open>n\<close> before the change and at offset \<open>n + 1\<close> after it.
\<close>

definition cursorObject :: "nat \<Rightarrow> Selection" where
  "cursorObject n = \<lparr>address = 10 + n, contents = cursor ''a'' n\<rparr>"

definition documentAlpha :: "Content object" where
  "documentAlpha =
     \<lparr>address = 2,
      contents =
        \<lparr>blockMap = [(''a'', \<lparr>address = 1, contents = blockAlpha\<rparr>)],
         selectionBefore = cursorObject 0, selectionAfter = cursorObject 0\<rparr>\<rparr>"

definition typed :: "nat \<Rightarrow> Content object" where
  "typed n =
     \<lparr>address = 20 + n,
      contents =
        \<lparr>blockMap = [(''a'', \<lparr>address = 1, contents = blockAlpha\<rparr>)],
         selectionBefore = cursorObject n, selectionAfter = cursorObject (Suc n)\<rparr>\<rparr>"

definition services0 :: "(unit, unit, unit) Services" where
  "services0 = \<lparr>generate = (\<lambda>c b d. ()), getDirection = (\<lambda>t r. r), defaultDir = ()\<rparr>"

definition editor0 :: "(unit, unit, unit) EditorState" where
  "editor0 =
     \<lparr>allowUndo = True, currentContent = documentAlpha, decorator = None,
      directionMap = [(''a'', ())], forceSelection = False, inCompositionMode = False,
      inlineStyleOverride = None, lastChangeType = None, nativelyRenderedContent = None,
      redoStack = [], selection = cursorObject 0, treeMap = [(''a'', ())], undoStack = []\<rparr>"

text \<open>
  Three changes of type \<open>insert-characters\<close> and a change of type
  \<open>change-inline-style\<close> pushed onto \<open>editor0\<close>, the new content states created at
  the addresses \<open>30\<close> to \<open>33\<close>. In \<open>moved\<close> the last change type is
  \<open>insert-characters\<close> and the selection is the cursor at offset \<open>2\<close>. In
  \<open>movedBack\<close> the last change type is \<open>insert-characters\<close> and the selection is a
  new object at address \<open>40\<close>, which holds what the \<open>selectionAfter\<close> of the current
  content holds: the cursor has moved away and back.
\<close>

definition editor1 :: "(unit, unit, unit) EditorState" where
  "editor1 = push services0 30 editor0 (typed 0) ''insert-characters'' True"

definition editor2 :: "(unit, unit, unit) EditorState" where
  "editor2 = push services0 31 editor1 (typed 1) ''insert-characters'' True"

definition editor3 :: "(unit, unit, unit) EditorState" where
  "editor3 = push services0 32 editor2 (typed 2) ''insert-characters'' True"

definition editor4 :: "(unit, unit, unit) EditorState" where
  "editor4 = push services0 33 editor3 (typed 3) ''change-inline-style'' True"

definition moved :: "(unit, unit, unit) EditorState" where
  "moved = editor0\<lparr>lastChangeType := Some ''insert-characters'', selection := cursorObject 2\<rparr>"

definition movedBack :: "(unit, unit, unit) EditorState" where
  "movedBack =
     editor0\<lparr>lastChangeType := Some ''insert-characters'',
             selection := \<lparr>address = 40, contents = cursor ''a'' 0\<rparr>\<rparr>"

definition heap1 :: Heap where
  "heap1 = snd (CharacterMetadata_applyStyle EMPTY ''BOLD'' initial_heap)"

definition heap2 :: Heap where
  "heap2 = snd (CharacterMetadata_applyStyle EMPTY ''BOLD'' heap1)"

section \<open>Properties\<close>

subsection \<open>Auxiliary facts\<close>

lemma Map_get_Map_set:
  "Map_get (Map_set m k v) k' = (if k' = k then Some v else Map_get m k')"
  by (induction m) (auto simp: Map_get_def)

lemma keys_Map_set: "k \<in> set (map fst m) \<Longrightarrow> map fst (Map_set m k v) = map fst m"
  by (induction m) force+

lemma Map_get_Some_key: "Map_get m k = Some v \<Longrightarrow> k \<in> set (map fst m)"
  by (auto simp: Map_get_def dest: map_of_SomeD intro: rev_image_eqI)

lemma slice_0: "slice xs 0 n = take n xs"
  by (simp add: slice_def)

lemma foldl_push: "foldl (\<lambda>returnList c. returnList @ [c]) xs ys = xs @ ys"
  by (induction ys arbitrary: xs) auto

lemma foldl_unshift: "foldl (\<lambda>returnList c. c # returnList) xs ys = rev ys @ xs"
  by (induction ys arbitrary: xs) auto

lemma insertIntoList_splice:
  "insertIntoList targetList toInsert offset =
     take offset targetList @ toInsert @ drop offset targetList"
  by (simp add: insertIntoList_def foldl_push foldl_unshift slice_def slice_from_def Let_def)

lemma indexOf_notin: "x \<notin> set xs \<Longrightarrow> indexOf xs x = - 1"
  by (induction xs) (auto simp: Let_def)

lemma lastIndexOf_notin: "x \<notin> set xs \<Longrightarrow> lastIndexOf xs x = - 1"
  by (induction xs) (auto simp: Let_def)

lemma indexOf_nth: "distinct xs \<Longrightarrow> i < length xs \<Longrightarrow> indexOf xs (xs ! i) = int i"
proof (induction xs arbitrary: i)
  case Nil
  then show ?case by simp
next
  case (Cons y ys)
  show ?case
  proof (cases i)
    case 0
    then show ?thesis by simp
  next
    case (Suc j)
    with Cons.prems have "j < length ys" "distinct ys" "ys ! j \<noteq> y" by auto
    with Cons.IH [of j] Suc show ?thesis by (auto simp: Let_def)
  qed
qed

lemma lastIndexOf_nth:
  "distinct xs \<Longrightarrow> i < length xs \<Longrightarrow> lastIndexOf xs (xs ! i) = int i"
proof (induction xs arbitrary: i)
  case Nil
  then show ?case by simp
next
  case (Cons y ys)
  show ?case
  proof (cases i)
    case 0
    with Cons.prems have "y \<notin> set ys" by simp
    then show ?thesis using 0 by (simp add: lastIndexOf_notin Let_def)
  next
    case (Suc j)
    with Cons.prems have "j < length ys" "distinct ys" by auto
    with Cons.IH [of j] Suc show ?thesis by (auto simp: Let_def)
  qed
qed

lemma distinct_nth_neq:
  "distinct xs \<Longrightarrow> i < length xs \<Longrightarrow> j < length xs \<Longrightarrow> i \<noteq> j \<Longrightarrow> xs ! i \<noteq> xs ! j"
  by (simp add: nth_eq_iff_index_eq)

lemma element_at_0: "element_at xs 0 = (case xs of [] \<Rightarrow> None | x # _ \<Rightarrow> Some x)"
  by (cases xs) (simp_all add: element_at_def)

lemmas set_defs = EditorState_set_def Object_assign_def assign_def no_properties_def

lemmas example_defs = editor0_def documentAlpha_def typed_def cursorObject_def contentAlpha_def
  cursor_def range_def blockAlpha_def blockBravo_def services0_def contentAlphaBravo_def
  defaultConfig_def EMPTY_STYLE_def moved_def movedBack_def

lemmas selection_defs = isCollapsed_def getStartKey_def getStartOffset_def getEndKey_def
  getEndOffset_def

lemmas eval_defs = push_def undo_def redo_def set_defs Let_def mustBecomeBoundary_def
  getDirectionMap_def regenerateTreeForNewBlocks_def Map_of_entries_def Map_get_def
  element_at_def slice_from_def overrideChangeTypes_def same_object_def
  ContentState_set_selectionBefore_def

lemma undo_nonempty:
  "allowUndo es \<Longrightarrow> undoStack es = c # rest \<Longrightarrow>
     currentContent (undo sv es) = c \<and> undoStack (undo sv es) = rest \<and>
     redoStack (undo sv es) = redoStack es @ [currentContent es] \<and>
     selection (undo sv es) = selectionBefore (contents (currentContent es))"
  by (simp add: undo_def element_at_0 set_defs slice_from_def Let_def)

lemma undo_noop: "\<not> allowUndo es \<or> undoStack es = [] \<Longrightarrow> undo sv es = es"
  by (auto simp: undo_def element_at_0)

lemma redo_noop: "\<not> allowUndo es \<or> redoStack es = [] \<Longrightarrow> redo sv es = es"
  by (auto simp: redo_def element_at_0)

lemma push_same: "push sv a es (currentContent es) changeType f = es"
  by (simp add: push_def same_object_def)

lemma push_same_object:
  "same_object (currentContent es) c \<Longrightarrow> push sv a es c changeType f = es"
  by (simp add: push_def)

lemma push_new:
  assumes "allowUndo es" and "\<not> same_object (currentContent es) c"
  shows "undoStack (push sv a es c ct f) =
           (if \<not> same_object (selection es) (selectionAfter (contents (currentContent es))) \<or>
               mustBecomeBoundary es ct
            then undoStack es @ [currentContent es] else undoStack es)"
    and "allowUndo (push sv a es c ct f)"
    and "selection (push sv a es c ct f) = selectionAfter (contents c)"
    and "lastChangeType (push sv a es c ct f) = Some ct"
    and "selectionAfter (contents (currentContent (push sv a es c ct f))) = selectionAfter (contents c)"
    and "redoStack (push sv a es c ct f) = []"
  using assms by (auto simp: push_def set_defs Let_def ContentState_set_selectionBefore_def)

subsection \<open>Edges of a selection\<close>

text \<open>
  C7. For every selection and every window \<open>[start, en]\<close> with \<open>start \<le> en\<close> in a block,
  \<open>hasEdgeWithin\<close> is true exactly when the anchor offset (if the block is the anchor
  block) or the focus offset (if the block is the focus block) lies in the window; for a
  block that is neither the anchor block nor the focus block it is false.
\<close>

theorem hasEdgeWithin_anchor_or_focus:
  "start \<le> en \<Longrightarrow>
     (hasEdgeWithin s blockKey start en \<longleftrightarrow>
        (blockKey = anchorKey s \<and> start \<le> anchorOffset s \<and> anchorOffset s \<le> en) \<or>
        (blockKey = focusKey s \<and> start \<le> focusOffset s \<and> focusOffset s \<le> en)) \<and>
     (blockKey \<noteq> anchorKey s \<and> blockKey \<noteq> focusKey s \<longrightarrow>
        \<not> hasEdgeWithin s blockKey start en)"
  by (auto simp: hasEdgeWithin_def getStartOffset_def getEndOffset_def Let_def)

theorem hasEdgeWithin_anchor_or_focus_witness:
  "(2::nat) \<le> 4 \<and>
   hasEdgeWithin \<lparr>anchorKey = ''a'', anchorOffset = 3, focusKey = ''b'', focusOffset = 9,
                   isBackward = False, hasFocus = True\<rparr> ''a'' 2 4 \<and>
   ''c'' \<noteq> ''a'' \<and> ''c'' \<noteq> ''b'' \<and>
   \<not> hasEdgeWithin \<lparr>anchorKey = ''a'', anchorOffset = 3, focusKey = ''b'', focusOffset = 9,
                     isBackward = False, hasFocus = True\<rparr> ''c'' 2 4"
  using hasEdgeWithin_anchor_or_focus [of 2 4
      "\<lparr>anchorKey = ''a'', anchorOffset = 3, focusKey = ''b'', focusOffset = 9,
        isBackward = False, hasFocus = True\<rparr>" "''a''"]
    hasEdgeWithin_anchor_or_focus [of 2 4
      "\<lparr>anchorKey = ''a'', anchorOffset = 3, focusKey = ''b'', focusOffset = 9,
        isBackward = False, hasFocus = True\<rparr>" "''c''"]
  by simp

subsection \<open>Neighbouring keys\<close>

text \<open>
  C9. For a content state whose block map has the key \<open>k\<close>, the keys of the map being
  distinct, \<open>getKeyBefore\<close> returns the same value as \<open>getKeyAfter\<close>: the key that
  follows \<open>k\<close> in the order of the document, and \<open>undefined\<close> when \<open>k\<close> is the last
  key. \<open>getKeyBefore\<close> does not return the key before \<open>k\<close>.
\<close>

theorem getKeyBefore_is_getKeyAfter:
  assumes "distinct (map fst (blockMap c))" and "k \<in> set (map fst (blockMap c))"
  shows "getKeyBefore c k = getKeyAfter c k \<and>
    (\<exists>i < length (blockMap c). fst (blockMap c ! i) = k \<and>
       getKeyAfter c k =
         (if Suc i < length (blockMap c) then Some (fst (blockMap c ! Suc i)) else None)) \<and>
    (\<forall>i. Suc i < length (blockMap c) \<and> fst (blockMap c ! Suc i) = k \<longrightarrow>
       getKeyBefore c k \<noteq> Some (fst (blockMap c ! i)))"
proof -
  let ?keys = "map fst (blockMap c)"
  from assms(2) obtain i where i: "i < length ?keys" "?keys ! i = k"
    by (auto simp: in_set_conv_nth)
  have a: "indexOf ?keys k = int i"
    using indexOf_nth [OF assms(1) i(1)] i(2) by simp
  have b: "lastIndexOf ?keys k = int i"
    using lastIndexOf_nth [OF assms(1) i(1)] i(2) by simp
  have after: "getKeyAfter c k = (if Suc i < length ?keys then Some (?keys ! Suc i) else None)"
    by (auto simp: getKeyAfter_def a element_at_def Let_def nat_add_distrib)
  have before: "getKeyBefore c k = (if Suc i < length ?keys then Some (?keys ! Suc i) else None)"
    by (auto simp: getKeyBefore_def b element_at_def Let_def nat_add_distrib)
  have 1: "getKeyBefore c k = getKeyAfter c k"
    using after before by simp
  have 2: "\<exists>i < length (blockMap c). fst (blockMap c ! i) = k \<and>
       getKeyAfter c k =
         (if Suc i < length (blockMap c) then Some (fst (blockMap c ! Suc i)) else None)"
    using i after by (intro exI [of _ i]) auto
  have 3: "getKeyBefore c k \<noteq> Some (fst (blockMap c ! j))"
    if j: "Suc j < length (blockMap c)" "fst (blockMap c ! Suc j) = k" for j
  proof -
    have "?keys ! Suc j = ?keys ! i"
      using j i by simp
    with assms(1) j(1) i(1) have ij: "i = Suc j"
      by (metis length_map nth_eq_iff_index_eq)
    show ?thesis
    proof (cases "Suc i < length ?keys")
      case True
      have "?keys ! Suc i \<noteq> ?keys ! j"
      proof -
        have "j < length ?keys" using j(1) by simp
        moreover have "Suc i \<noteq> j" using ij by simp
        ultimately show ?thesis
          using distinct_nth_neq [OF assms(1) True] by blast
      qed
      with before True j(1) show ?thesis by simp
    next
      case False
      with before show ?thesis by simp
    qed
  qed
  from 1 2 3 show ?thesis by blast
qed

theorem getKeyBefore_is_getKeyAfter_witness:
  "distinct (map fst (blockMap contentAlphaBravo)) \<and>
   ''a'' \<in> set (map fst (blockMap contentAlphaBravo)) \<and>
   getKeyBefore contentAlphaBravo ''a'' = getKeyAfter contentAlphaBravo ''a'' \<and>
   getKeyAfter contentAlphaBravo ''a'' = Some ''b'' \<and>
   getKeyBefore contentAlphaBravo ''b'' = None"
  using getKeyBefore_is_getKeyAfter [of contentAlphaBravo "''a''"]
    getKeyBefore_is_getKeyAfter [of contentAlphaBravo "''b''"]
  by (simp add: getKeyBefore_def getKeyAfter_def element_at_def contentAlphaBravo_def Let_def)

subsection \<open>Inserting text\<close>

text \<open>
  A text that is not empty is never inserted: the call ends in an error, the failed
  invariant for a selection that is not collapsed, a TypeError for a key without a
  block, the ReferenceError otherwise.
\<close>

lemma insertText_nonempty_throws:
  "txt \<noteq> [] \<Longrightarrow> \<exists>e. insertTextIntoContentState contentState selectionState txt m = Inl e"
  by (auto simp: insertTextIntoContentState_def Let_def split: option.splits)

text \<open>
  C5. For the content with the block \<open>a\<close> of text \<open>Alpha\<close>, the collapsed selection at
  offset \<open>5\<close> of that block and the text \<open>Bet\<close>, \<open>insertTextIntoContentState\<close> does
  not return a content state with the block text \<open>AlphaBet\<close>: it throws a
  ReferenceError where it reads \<open>ContentState\<close>.
\<close>

theorem insertText_Bet_throws:
  "isCollapsed (cursor ''a'' 5) \<and>
   Map_get (blockMap contentAlpha) (getStartKey (cursor ''a'' 5)) = Some blockAlpha \<and>
   insertTextIntoContentState contentAlpha (cursor ''a'' 5) ''Bet'' defaultConfig =
     Inl ReferenceError"
  by (simp add: insertTextIntoContentState_def selection_defs cursor_def contentAlpha_def
      Map_get_def Let_def)

subsection \<open>Changes that change nothing\<close>

text \<open>
  C8. The operations return their input where there is nothing to do:
  \<open>removeRangeFromContentState\<close> on a collapsed selection returns the content state it
  was given; \<open>insertTextIntoContentState\<close>, which is for collapsed selections, returns
  the content state it was given when the text is empty; \<open>push\<close> with the object that
  is the current content returns the editor state it was given; \<open>undo\<close> with an empty
  undo stack and \<open>redo\<close> with an empty redo stack return the editor state they were
  given.
\<close>

theorem no_op_conditions:
  "(isCollapsed selectionState \<longrightarrow>
      removeRangeFromContentState contentState selectionState = Inr contentState) \<and>
   (isCollapsed selectionState \<longrightarrow>
      insertTextIntoContentState contentState selectionState [] m = Inr contentState) \<and>
   push sv a es (currentContent es) changeType f = es \<and>
   (undoStack es = [] \<longrightarrow> undo sv es = es) \<and>
   (redoStack es = [] \<longrightarrow> redo sv es = es)"
  by (simp add: removeRangeFromContentState_def insertTextIntoContentState_def push_same
      undo_noop redo_noop)

theorem no_op_conditions_witness:
  "isCollapsed (cursor ''a'' 5) \<and>
   removeRangeFromContentState contentAlpha (cursor ''a'' 5) = Inr contentAlpha \<and>
   insertTextIntoContentState contentAlpha (cursor ''a'' 5) [] defaultConfig = Inr contentAlpha \<and>
   push services0 30 editor0 documentAlpha ''insert-characters'' True = editor0 \<and>
   undoStack editor0 = [] \<and> undo services0 editor0 = editor0 \<and>
   redoStack editor0 = [] \<and> redo services0 editor0 = editor0"
  using no_op_conditions [of "cursor ''a'' 5" contentAlpha defaultConfig services0 30 editor0
      "''insert-characters''" True]
  by (simp add: isCollapsed_def cursor_def editor0_def)

subsection \<open>Removing a range\<close>

text \<open>
  A selection that is not collapsed, lies within one block and does not start at
  offset \<open>0\<close> never gets past \<open>removeFromList\<close>.
\<close>

lemma removeRange_within_block_throws:
  "\<not> isCollapsed selectionState \<Longrightarrow>
   getStartKey selectionState = getEndKey selectionState \<Longrightarrow>
   getStartOffset selectionState \<noteq> 0 \<Longrightarrow>
   removeRangeFromContentState contentState selectionState = Inl TypeError"
  by (auto simp: removeRangeFromContentState_def removeFromList_def Let_def
      split: option.splits)

text \<open>
  C3. For the content with the block \<open>a\<close> of text \<open>Alpha\<close> and the selection from
  offset \<open>3\<close> to offset \<open>5\<close> of that block, \<open>removeRangeFromContentState\<close> does not
  return a content state: \<open>removeFromList\<close> calls \<open>count\<close> on the character array
  and throws a TypeError.
\<close>

theorem removeRange_Alpha_throws:
  "removeRangeFromContentState contentAlpha (range ''a'' 3 ''a'' 5) = Inl TypeError"
  by (simp add: removeRangeFromContentState_def contentAlpha_def range_def selection_defs
      Map_get_def removeFromList_def)


subsection \<open>Applying an entity or a style to a range\<close>

text \<open>
  C4. For the content with the blocks \<open>Alpha\<close> and \<open>Bravo\<close> and the selection of the
  whole block \<open>Alpha\<close>: \<open>applyEntityToContentState\<close> leaves every character of every
  block as it was and adds an entry with key and value \<open>undefined\<close> to the block map;
  \<open>modifyInlineStyle\<close> leaves the block \<open>Alpha\<close> as it was and puts the style on
  every character of the block \<open>Bravo\<close>, which the selection does not touch. Both
  return the selection as \<open>selectionBefore\<close> and \<open>selectionAfter\<close>.
\<close>

theorem range_operations_miss_the_start_block:
  "applyEntityToContentState contentAlphaBravo (range ''a'' 0 ''a'' 5) (Some ''1'') =
     Inr \<lparr>blockMap = [(Some ''a'', Some blockAlpha), (Some ''b'', Some blockBravo), (None, None)],
          selectionBefore = range ''a'' 0 ''a'' 5, selectionAfter = range ''a'' 0 ''a'' 5\<rparr> \<and>
   modifyInlineStyle contentAlphaBravo (range ''a'' 0 ''a'' 5) ''BOLD'' True =
     Inr \<lparr>blockMap =
            [(''a'', blockAlpha),
             (''b'', blockBravo\<lparr>characterList := replicate 5 \<lparr>style = [''BOLD''], entity = None\<rparr>\<rparr>)],
          selectionBefore = range ''a'' 0 ''a'' 5, selectionAfter = range ''a'' 0 ''a'' 5\<rparr>"
  by code_simp

subsection \<open>The pool of CharacterMetadata objects\<close>

lemma create_again:
  "CharacterMetadata_create config h = (r1, h1) \<Longrightarrow> CharacterMetadata_create config h1 = (r1, h1)"
  by (auto simp: CharacterMetadata_create_def Let_def Map_get_Map_set
      split: option.splits)

lemma set_fresh:
  assumes "wf_heap h" and "CharacterMetadata_set record' put h = (r', h')"
  shows "r' = length (objects h)" and "\<not> pooled h' r'" and "pool h' = pool h"
    and "take (length (objects h)) (objects h') = objects h"
    and "objects h' ! r' = inheritAndUpdate (objects h ! record') put"
proof -
  from assms(2) have r: "r' = length (objects h)"
    and h: "h' = h\<lparr>objects := objects h @ [inheritAndUpdate (objects h ! record') put]\<rparr>"
    by (auto simp: CharacterMetadata_set_def)
  show "r' = length (objects h)" by (rule r)
  show "pool h' = pool h" using h by simp
  show "take (length (objects h)) (objects h') = objects h" using h by simp
  show "objects h' ! r' = inheritAndUpdate (objects h ! record') put" using h r by simp
  show "\<not> pooled h' r'"
    using assms(1) h r by (auto simp: pooled_def wf_heap_def list_all_iff)
qed

text \<open>
  The objects of the pool are objects of the heap in every heap that the operations
  build from the initial heap.
\<close>

lemma set_Map_set: "set (Map_set m k v) \<subseteq> insert (k, v) (set m)"
  by (induction m) (auto split: if_splits)

lemma wf_heap_initial: "wf_heap initial_heap"
  by (simp add: wf_heap_def initial_heap_def EMPTY_def)

lemma wf_heap_set:
  "wf_heap h \<Longrightarrow> CharacterMetadata_set r put h = (r', h') \<Longrightarrow> wf_heap h' \<and> r' < length (objects h')"
  by (fastforce simp: wf_heap_def CharacterMetadata_set_def list_all_iff)

lemma wf_heap_create:
  assumes "wf_heap h" and "0 < length (objects h)" and "CharacterMetadata_create config h = (r, h')"
  shows "wf_heap h' \<and> r < length (objects h')"
proof (cases config)
  case None
  with assms show ?thesis by (simp add: CharacterMetadata_create_def EMPTY_def)
next
  case (Some cfg)
  let ?m = "\<lparr>style = (case config_style cfg of None \<Rightarrow> style defaultConfig | Some s \<Rightarrow> s),
             entity = (case config_entity cfg of None \<Rightarrow> entity defaultConfig | Some e \<Rightarrow> Some e)\<rparr>"
  let ?k = "hashCharacterMetadataConfig ?m"
  show ?thesis
  proof (cases "Map_get (pool h) ?k")
    case None
    with Some assms(3) have h': "h' = h\<lparr>objects := objects h @ [?m],
        pool := Map_set (pool h) ?k (length (objects h))\<rparr>" and r: "r = length (objects h)"
      by (auto simp: CharacterMetadata_create_def Let_def)
    have "\<forall>(k, x) \<in> set (Map_set (pool h) ?k (length (objects h))). x < Suc (length (objects h))"
      using set_Map_set [of "pool h" ?k "length (objects h)"] assms(1)
      by (fastforce simp: wf_heap_def list_all_iff)
    then show ?thesis using h' r by (simp add: wf_heap_def list_all_iff)
  next
    case (Some e)
    with \<open>config = Some cfg\<close> assms(3) have "h' = h" "r = e"
      by (auto simp: CharacterMetadata_create_def Let_def)
    moreover from Some have "(?k, e) \<in> set (pool h)"
      by (auto simp: Map_get_def dest: map_of_SomeD)
    ultimately show ?thesis using assms(1) by (fastforce simp: wf_heap_def list_all_iff)
  qed
qed

lemma applyStyle_object:
  "CharacterMetadata_applyStyle r tag h = (r', h') \<Longrightarrow>
     objects h' ! r' = applyStyle (objects h ! r) tag"
  by (auto simp: CharacterMetadata_applyStyle_def CharacterMetadata_set_def
      inheritAndUpdate_def applyStyle_def Let_def)

lemma removeStyle_object:
  "CharacterMetadata_removeStyle r tag h = (r', h') \<Longrightarrow>
     objects h' ! r' = removeStyle (objects h ! r) tag"
  by (auto simp: CharacterMetadata_removeStyle_def CharacterMetadata_set_def
      inheritAndUpdate_def removeStyle_def Let_def)

lemma set_Set_add: "set (Set_add xs x) = insert x (set xs)"
  by (auto simp: Set_add_def)

lemma set_Set_delete: "set (Set_delete xs x) = set xs - {x}"
  by (auto simp: Set_delete_def)

text \<open>
  An entry of the pool stays where it is: \<open>create\<close> only adds entries for hashes that
  the pool does not have, and \<open>set\<close> does not touch the pool.
\<close>

lemma pool_kept_by_create:
  "Map_get (pool h) k = Some r \<Longrightarrow> CharacterMetadata_create config h = (r', h') \<Longrightarrow>
     Map_get (pool h') k = Some r"
  by (auto simp: CharacterMetadata_create_def Let_def Map_get_Map_set
      split: option.splits)

lemma pool_kept_by_set:
  "CharacterMetadata_set r put h = (r', h') \<Longrightarrow> pool h' = pool h"
  by (auto simp: CharacterMetadata_set_def)

lemmas heap_defs = initial_heap_def heap1_def heap2_def CharacterMetadata_applyStyle_def
  CharacterMetadata_removeStyle_def CharacterMetadata_set_def CharacterMetadata_create_def
  inheritAndUpdate_def EMPTY_def defaultConfig_def EMPTY_STYLE_def
  hashCharacterMetadataConfig_def hashDraftInlineStyle_def Set_add_def Set_delete_def
  Map_get_def pooled_def wf_heap_def Let_def

text \<open>
  C6. Applying the style \<open>BOLD\<close> to \<open>EMPTY\<close> twice gives the objects \<open>1\<close> and \<open>2\<close>.
  They hold the same style set and entity, they are two objects, and neither is in the
  pool. \<open>create\<close> for that style set and entity then makes a third object. Removing the
  style from the first gives an object that holds what \<open>EMPTY\<close> holds and is not
  \<open>EMPTY\<close>.
\<close>

theorem applyStyle_twice_two_objects:
  "CharacterMetadata_applyStyle EMPTY ''BOLD'' initial_heap = (1, heap1) \<and>
   CharacterMetadata_applyStyle EMPTY ''BOLD'' heap1 = (2, heap2) \<and>
   objects heap2 ! 1 = \<lparr>style = [''BOLD''], entity = None\<rparr> \<and>
   objects heap2 ! 2 = \<lparr>style = [''BOLD''], entity = None\<rparr> \<and>
   \<not> pooled heap2 1 \<and> \<not> pooled heap2 2 \<and>
   fst (CharacterMetadata_create
          (Some \<lparr>config_style = Some [''BOLD''], config_entity = None\<rparr>) heap2) = 3 \<and>
   fst (CharacterMetadata_removeStyle 1 ''BOLD'' heap2) = 3 \<and>
   objects (snd (CharacterMetadata_removeStyle 1 ''BOLD'' heap2)) ! 3 = objects heap2 ! EMPTY \<and>
   EMPTY \<noteq> 3"
  by (simp add: heap_defs)

subsection \<open>Undo\<close>

text \<open>
  C1. For every editor state with undo enabled and an undo stack that is not empty,
  \<open>undo\<close> takes the new current content from the undo stack and removes that entry
  from the stack, puts the content that was current at the end of the redo stack, and
  sets the selection to the \<open>selectionBefore\<close> of the content that was current. If
  the undo stack is empty or undo is disabled, \<open>undo\<close> returns the editor state it was
  given.
\<close>

theorem undo_restores_from_stack:
  "(allowUndo es \<and> undoStack es \<noteq> [] \<longrightarrow>
      (\<exists>xs ys. undoStack es = xs @ [currentContent (undo sv es)] @ ys \<and>
               undoStack (undo sv es) = xs @ ys) \<and>
      redoStack (undo sv es) = redoStack es @ [currentContent es] \<and>
      selection (undo sv es) = selectionBefore (contents (currentContent es))) \<and>
   (\<not> allowUndo es \<or> undoStack es = [] \<longrightarrow> undo sv es = es)"
proof (intro conjI impI)
  assume a: "allowUndo es \<and> undoStack es \<noteq> []"
  then obtain c rest where s: "undoStack es = c # rest"
    by (cases "undoStack es") auto
  note u = undo_nonempty [OF conjunct1 [OF a] s, of sv]
  have "undoStack es = [] @ [currentContent (undo sv es)] @ rest \<and>
        undoStack (undo sv es) = [] @ rest"
    using u s by simp
  then show "\<exists>xs ys. undoStack es = xs @ [currentContent (undo sv es)] @ ys \<and>
               undoStack (undo sv es) = xs @ ys"
    by blast
  show "redoStack (undo sv es) = redoStack es @ [currentContent es]"
    using u by simp
  show "selection (undo sv es) = selectionBefore (contents (currentContent es))"
    using u by simp
next
  assume "\<not> allowUndo es \<or> undoStack es = []"
  then show "undo sv es = es" by (rule undo_noop)
qed

theorem undo_restores_from_stack_witness:
  "allowUndo (editor0\<lparr>currentContent := typed 3, undoStack := [documentAlpha]\<rparr>) \<and>
   undoStack (editor0\<lparr>currentContent := typed 3, undoStack := [documentAlpha]\<rparr>) \<noteq> [] \<and>
   redoStack (undo services0 (editor0\<lparr>currentContent := typed 3, undoStack := [documentAlpha]\<rparr>)) =
     [typed 3] \<and>
   selection (undo services0 (editor0\<lparr>currentContent := typed 3, undoStack := [documentAlpha]\<rparr>)) =
     cursorObject 3 \<and>
   undoStack editor0 = [] \<and> undo services0 editor0 = editor0"
  using undo_restores_from_stack
      [of "editor0\<lparr>currentContent := typed 3, undoStack := [documentAlpha]\<rparr>" services0]
    undo_restores_from_stack [of editor0 services0]
  by (simp add: editor0_def typed_def)

text \<open>
  C1. With the undo stack \<open>[documentAlpha]\<close> and the current content \<open>typed 3\<close>,
  \<open>undo\<close> restores \<open>documentAlpha\<close>, whose \<open>selectionBefore\<close> is the cursor at
  offset \<open>0\<close>, and sets the selection to the cursor at offset \<open>3\<close>, the
  \<open>selectionBefore\<close> of \<open>typed 3\<close>.
\<close>

theorem undo_selection_counterexample:
  "allowUndo (editor0\<lparr>currentContent := typed 3, undoStack := [documentAlpha]\<rparr>) \<and>
   undoStack (editor0\<lparr>currentContent := typed 3, undoStack := [documentAlpha]\<rparr>) \<noteq> [] \<and>
   currentContent (undo services0 (editor0\<lparr>currentContent := typed 3, undoStack := [documentAlpha]\<rparr>)) =
     documentAlpha \<and>
   selection (undo services0 (editor0\<lparr>currentContent := typed 3, undoStack := [documentAlpha]\<rparr>)) =
     cursorObject 3 \<and>
   selectionBefore (contents documentAlpha) = cursorObject 0 \<and>
   \<not> same_object (cursorObject 3) (cursorObject 0) \<and>
   contents (cursorObject 3) \<noteq> contents (cursorObject 0)"
  by (simp add: undo_def set_defs Let_def element_at_def example_defs same_object_def)

subsection \<open>Push and the boundaries of undo\<close>

text \<open>
  C2. For an editor state with undo enabled, \<open>push\<close> of a content that is not the
  object that is the current content puts the current content onto the undo stack
  exactly when the selection of the editor is not the object that is the
  \<open>selectionAfter\<close> of the current content, or the change type differs from the last
  change type, or the change type is none of \<open>insert-characters\<close>,
  \<open>backspace-character\<close>, \<open>delete-character\<close>. So when the last change type is not
  \<open>insert-characters\<close>, or the selection is not that object, three pushes of type
  \<open>insert-characters\<close>, each of a content that is not the current one, add one entry to
  the undo stack, the content that was current before the first of them; and a following
  push of type \<open>change-inline-style\<close> adds one more, the content that was current before
  it.
\<close>

theorem push_boundaries:
  "(allowUndo es \<and> \<not> same_object (currentContent es) c \<longrightarrow>
      undoStack (push sv a es c ct f) =
        (if \<not> same_object (selection es) (selectionAfter (contents (currentContent es))) \<or>
            Some ct \<noteq> lastChangeType es \<or>
            (ct \<noteq> ''insert-characters'' \<and> ct \<noteq> ''backspace-character'' \<and>
             ct \<noteq> ''delete-character'')
         then undoStack es @ [currentContent es] else undoStack es)) \<and>
   (allowUndo es \<and>
    (lastChangeType es \<noteq> Some ''insert-characters'' \<or>
     \<not> same_object (selection es) (selectionAfter (contents (currentContent es)))) \<and>
    es1 = push sv a1 es c1 ''insert-characters'' f1 \<and> \<not> same_object (currentContent es) c1 \<and>
    es2 = push sv a2 es1 c2 ''insert-characters'' f2 \<and> \<not> same_object (currentContent es1) c2 \<and>
    es3 = push sv a3 es2 c3 ''insert-characters'' f3 \<and> \<not> same_object (currentContent es2) c3 \<and>
    es4 = push sv a4 es3 c4 ''change-inline-style'' f4 \<and> \<not> same_object (currentContent es3) c4 \<longrightarrow>
      undoStack es3 = undoStack es @ [currentContent es] \<and>
      undoStack es4 = undoStack es3 @ [currentContent es3])"
proof (intro conjI impI)
  assume "allowUndo es \<and> \<not> same_object (currentContent es) c"
  then show "undoStack (push sv a es c ct f) =
        (if \<not> same_object (selection es) (selectionAfter (contents (currentContent es))) \<or>
            Some ct \<noteq> lastChangeType es \<or>
            (ct \<noteq> ''insert-characters'' \<and> ct \<noteq> ''backspace-character'' \<and>
             ct \<noteq> ''delete-character'')
         then undoStack es @ [currentContent es] else undoStack es)"
    by (simp add: push_new(1) mustBecomeBoundary_def)
next
  assume a: "allowUndo es \<and>
    (lastChangeType es \<noteq> Some ''insert-characters'' \<or>
     \<not> same_object (selection es) (selectionAfter (contents (currentContent es)))) \<and>
    es1 = push sv a1 es c1 ''insert-characters'' f1 \<and> \<not> same_object (currentContent es) c1 \<and>
    es2 = push sv a2 es1 c2 ''insert-characters'' f2 \<and> \<not> same_object (currentContent es1) c2 \<and>
    es3 = push sv a3 es2 c3 ''insert-characters'' f3 \<and> \<not> same_object (currentContent es2) c3 \<and>
    es4 = push sv a4 es3 c4 ''change-inline-style'' f4 \<and> \<not> same_object (currentContent es3) c4"
  then have es: "allowUndo es" "\<not> same_object (currentContent es) c1"
    and e1: "es1 = push sv a1 es c1 ''insert-characters'' f1"
    and e2: "es2 = push sv a2 es1 c2 ''insert-characters'' f2"
    and e3: "es3 = push sv a3 es2 c3 ''insert-characters'' f3"
    and e4: "es4 = push sv a4 es3 c4 ''change-inline-style'' f4"
    and n2: "\<not> same_object (currentContent es1) c2"
    and n3: "\<not> same_object (currentContent es2) c3"
    and n4: "\<not> same_object (currentContent es3) c4"
    and l: "lastChangeType es \<noteq> Some ''insert-characters'' \<or>
            \<not> same_object (selection es) (selectionAfter (contents (currentContent es)))"
    by blast+
  note p1 = push_new [OF es, of sv a1 "''insert-characters''" f1, folded e1]
  have u1: "undoStack es1 = undoStack es @ [currentContent es]"
    using p1(1) l by (auto simp: mustBecomeBoundary_def)
  have s1: "same_object (selection es1) (selectionAfter (contents (currentContent es1)))"
    using p1 by (simp add: same_object_def)
  note p2 = push_new [OF p1(2) n2, of sv a2 "''insert-characters''" f2, folded e2]
  have u2: "undoStack es2 = undoStack es1"
    using p2(1) s1 p1(4) by (simp add: mustBecomeBoundary_def)
  have s2: "same_object (selection es2) (selectionAfter (contents (currentContent es2)))"
    using p2 by (simp add: same_object_def)
  note p3 = push_new [OF p2(2) n3, of sv a3 "''insert-characters''" f3, folded e3]
  have u3: "undoStack es3 = undoStack es2"
    using p3(1) s2 p2(4) by (simp add: mustBecomeBoundary_def)
  note p4 = push_new [OF p3(2) n4, of sv a4 "''change-inline-style''" f4, folded e4]
  have u4: "undoStack es4 = undoStack es3 @ [currentContent es3]"
    using p4(1) by (simp add: mustBecomeBoundary_def)
  show "undoStack es3 = undoStack es @ [currentContent es]"
    using u1 u2 u3 by simp
  show "undoStack es4 = undoStack es3 @ [currentContent es3]"
    using u4 by simp
qed

lemma typed1: "editor1 = editor0
    \<lparr>currentContent := \<lparr>address = 30, contents = contents (typed 0)\<rparr>, forceSelection := True,
      lastChangeType := Some ''insert-characters'', selection := cursorObject 1,
      undoStack := [documentAlpha]\<rparr>"
  by (simp add: editor1_def eval_defs example_defs)

lemma typed2: "editor2 = editor0
    \<lparr>currentContent :=
       \<lparr>address = 31, contents = (contents (typed 1))\<lparr>selectionBefore := cursorObject 0\<rparr>\<rparr>,
      forceSelection := True,
      lastChangeType := Some ''insert-characters'', selection := cursorObject 2,
      undoStack := [documentAlpha]\<rparr>"
  by (simp add: editor2_def typed1 eval_defs example_defs)

lemma typed3: "editor3 = editor0
    \<lparr>currentContent :=
       \<lparr>address = 32, contents = (contents (typed 2))\<lparr>selectionBefore := cursorObject 0\<rparr>\<rparr>,
      forceSelection := True,
      lastChangeType := Some ''insert-characters'', selection := cursorObject 3,
      undoStack := [documentAlpha]\<rparr>"
  by (simp add: editor3_def typed2 eval_defs example_defs)

lemma styled4: "editor4 = editor0
    \<lparr>currentContent :=
       \<lparr>address = 33, contents = (contents (typed 3))\<lparr>selectionBefore := cursorObject 3\<rparr>\<rparr>,
      forceSelection := True,
      lastChangeType := Some ''change-inline-style'', selection := cursorObject 4,
      undoStack := [documentAlpha,
        \<lparr>address = 32, contents = (contents (typed 2))\<lparr>selectionBefore := cursorObject 0\<rparr>\<rparr>]\<rparr>"
  by (simp add: editor4_def typed3 eval_defs example_defs)

theorem push_boundaries_witness:
  "allowUndo editor0 \<and> lastChangeType editor0 \<noteq> Some ''insert-characters'' \<and>
   \<not> same_object (currentContent editor0) (typed 0) \<and>
   \<not> same_object (currentContent editor1) (typed 1) \<and>
   \<not> same_object (currentContent editor2) (typed 2) \<and>
   \<not> same_object (currentContent editor3) (typed 3) \<and>
   undoStack editor0 = [] \<and>
   undoStack editor3 = [documentAlpha] \<and>
   undoStack editor4 = [documentAlpha, currentContent editor3]"
proof -
  have h: "allowUndo editor0" "lastChangeType editor0 \<noteq> Some ''insert-characters''"
    "\<not> same_object (currentContent editor0) (typed 0)"
    "\<not> same_object (currentContent editor1) (typed 1)"
    "\<not> same_object (currentContent editor2) (typed 2)"
    "\<not> same_object (currentContent editor3) (typed 3)"
    "undoStack editor0 = []" "currentContent editor0 = documentAlpha"
    by (simp_all add: typed1 typed2 typed3 example_defs same_object_def)
  from push_boundaries [of editor0 "typed 0" services0 30 "''insert-characters''" True
      editor1 30 "typed 0" True editor2 31 "typed 1" True editor3 32 "typed 2" True
      editor4 33 "typed 3" True] h
  have "undoStack editor3 = undoStack editor0 @ [currentContent editor0] \<and>
        undoStack editor4 = undoStack editor3 @ [currentContent editor3]"
    by (simp add: editor1_def editor2_def editor3_def editor4_def)
  with h show ?thesis by simp
qed

text \<open>
  C2. In the state \<open>moved\<close> the last change type is \<open>insert-characters\<close> and the
  selection is not the \<open>selectionAfter\<close> of the current content: a push of type
  \<open>insert-characters\<close> puts the current content onto the undo stack.
\<close>

theorem push_boundary_by_selection_counterexample:
  "allowUndo moved \<and> \<not> same_object (currentContent moved) (typed 2) \<and>
   lastChangeType moved = Some ''insert-characters'' \<and>
   undoStack moved = [] \<and>
   undoStack (push services0 30 moved (typed 2) ''insert-characters'' True) = [documentAlpha]"
  by (simp add: eval_defs example_defs)

text \<open>
  The same holds in the state \<open>movedBack\<close>, where the selection holds what the
  \<open>selectionAfter\<close> of the current content holds and is another object.
\<close>

lemma push_boundary_by_identity:
  "contents (selection movedBack) = contents (selectionAfter (contents (currentContent movedBack))) \<and>
   \<not> same_object (selection movedBack) (selectionAfter (contents (currentContent movedBack))) \<and>
   lastChangeType movedBack = Some ''insert-characters'' \<and>
   undoStack (push services0 30 movedBack (typed 0) ''insert-characters'' True) = [documentAlpha]"
  by (simp add: eval_defs example_defs)

text \<open>
  After the three insertions and the style change, \<open>undo\<close> restores the content
  \<open>documentAlpha\<close> from before the first insertion, not the content \<open>editor3\<close> had
  before the style change: it reads the first entry of the undo stack, and \<open>push\<close>
  puts new entries at the end.
\<close>

lemma undo_after_style_change:
  "currentContent (undo services0 editor4) = documentAlpha \<and>
   undoStack editor4 = [documentAlpha, currentContent editor3]"
  by (simp add: styled4 typed3 eval_defs example_defs)

end
